theory Spec2Isabelle
  imports Main
begin

section \<open>The module \<^verbatim>\<open>HTTPStatusCodes.ts\<close>\<close>

text \<open>
  The module consists of declarations only. Every status is declared twice under one
  name, once in the value namespace and once in the type namespace:
  \<^verbatim>\<open>export const NOT_FOUND = 404;\<close> and \<^verbatim>\<open>export type NOT_FOUND = 404;\<close>.
  Five union types group the literal types, and \<^verbatim>\<open>HTTPStatus\<close> is the union of the five.
  The module declares no function and no mutable binding.

  The numeric literals are all integers, so a constant is an \<^typ>\<open>int\<close>. A type is modelled
  by the set of its inhabitants: a literal type is a singleton and a union type is the
  union of its members. A type shares its name with a constant, so the type-level
  definitions carry the suffix \<open>_ty\<close>; the union types have no value-level namesake and
  keep their names.
\<close>

subsection \<open>Value namespace: the exported constants\<close>

definition CONTINUE :: int where
  "CONTINUE = 100"

definition SWITCHING_PROTOCOLS :: int where
  "SWITCHING_PROTOCOLS = 101"

definition PROCESSING :: int where
  "PROCESSING = 102"

definition EARLY_HINTS :: int where
  "EARLY_HINTS = 103"

definition OK :: int where
  "OK = 200"

definition CREATED :: int where
  "CREATED = 201"

definition ACCEPTED :: int where
  "ACCEPTED = 202"

definition NON_AUTHORITATIVE_INFORMATION :: int where
  "NON_AUTHORITATIVE_INFORMATION = 203"

definition NO_CONTENT :: int where
  "NO_CONTENT = 204"

definition RESET_CONTENT :: int where
  "RESET_CONTENT = 205"

definition PARTIAL_CONTENT :: int where
  "PARTIAL_CONTENT = 206"

definition MULTI_STATUS :: int where
  "MULTI_STATUS = 207"

definition ALREADY_REPORTED :: int where
  "ALREADY_REPORTED = 208"

definition IM_USED :: int where
  "IM_USED = 226"

definition MULTIPLE_CHOICES :: int where
  "MULTIPLE_CHOICES = 300"

definition MOVED_PERMANENTLY :: int where
  "MOVED_PERMANENTLY = 301"

definition FOUND :: int where
  "FOUND = 302"

definition SEE_OTHER :: int where
  "SEE_OTHER = 303"

definition NOT_MODIFIED :: int where
  "NOT_MODIFIED = 304"

definition USE_PROXY :: int where
  "USE_PROXY = 305"

definition SWITCH_PROXY :: int where
  "SWITCH_PROXY = 306"

definition TEMPORARY_REDIRECT :: int where
  "TEMPORARY_REDIRECT = 307"

definition PERMANENT_REDIRECT :: int where
  "PERMANENT_REDIRECT = 308"

definition BAD_REQUEST :: int where
  "BAD_REQUEST = 400"

definition UNAUTHORISED :: int where
  "UNAUTHORISED = 401"

definition PAYMENT_REQUIRED :: int where
  "PAYMENT_REQUIRED = 402"

definition FORBIDDEN :: int where
  "FORBIDDEN = 403"

definition NOT_FOUND :: int where
  "NOT_FOUND = 404"

definition METHOD_NOT_ALLOWED :: int where
  "METHOD_NOT_ALLOWED = 405"

definition NOT_ACCEPTABLE :: int where
  "NOT_ACCEPTABLE = 406"

definition PROXY_AUTHENTICATION_REQUIRED :: int where
  "PROXY_AUTHENTICATION_REQUIRED = 407"

definition REQUEST_TIMEOUT :: int where
  "REQUEST_TIMEOUT = 408"

definition CONFLICT :: int where
  "CONFLICT = 409"

definition GONE :: int where
  "GONE = 410"

definition LENGTH_REQUIRED :: int where
  "LENGTH_REQUIRED = 411"

definition PRECONDITION_FAILED :: int where
  "PRECONDITION_FAILED = 412"

definition PAYLOAD_TOO_LARGE :: int where
  "PAYLOAD_TOO_LARGE = 413"

definition URI_TOO_LONG :: int where
  "URI_TOO_LONG = 414"

definition UNSUPPORTED_MEDIA_TYPE :: int where
  "UNSUPPORTED_MEDIA_TYPE = 415"

definition RANGE_NOT_SATISFIABLE :: int where
  "RANGE_NOT_SATISFIABLE = 416"

definition EXPECTATION_FAILED :: int where
  "EXPECTATION_FAILED = 417"

definition IM_A_TEAPOT :: int where
  "IM_A_TEAPOT = 418"

definition MISDIRECTED_REQUEST :: int where
  "MISDIRECTED_REQUEST = 421"

definition UNPROCESSABLE_ENTRY :: int where
  "UNPROCESSABLE_ENTRY = 422"

definition LOCKED :: int where
  "LOCKED = 423"

definition FAILED_DEPENDENCY :: int where
  "FAILED_DEPENDENCY = 424"

definition TOO_EARLY :: int where
  "TOO_EARLY = 425"

definition UPGRADE_REQUIRED :: int where
  "UPGRADE_REQUIRED = 426"

definition PRECONDITION_REQUIRED :: int where
  "PRECONDITION_REQUIRED = 428"

definition TOO_MANY_REQUESTS :: int where
  "TOO_MANY_REQUESTS = 429"

definition REQUEST_HEADER_FIELDS_TOO_LARGE :: int where
  "REQUEST_HEADER_FIELDS_TOO_LARGE = 431"

definition UNAVAILABLE_FOR_LEGAL_REASONS :: int where
  "UNAVAILABLE_FOR_LEGAL_REASONS = 451"

definition INTERNAL_SERVER_ERROR :: int where
  "INTERNAL_SERVER_ERROR = 500"

definition NOT_IMPLEMENTED :: int where
  "NOT_IMPLEMENTED = 501"

definition BAD_GATEWAY :: int where
  "BAD_GATEWAY = 502"

definition SERVICE_UNAVAILABLE :: int where
  "SERVICE_UNAVAILABLE = 503"

definition GATEWAY_TIMEOUT :: int where
  "GATEWAY_TIMEOUT = 504"

definition HTTP_VERSION_NOT_SUPPORTED :: int where
  "HTTP_VERSION_NOT_SUPPORTED = 505"

definition VARIANT_ALSO_NEGOTIATES :: int where
  "VARIANT_ALSO_NEGOTIATES = 506"

definition INSUFFICIENT_STORAGE :: int where
  "INSUFFICIENT_STORAGE = 507"

definition LOOP_DETECTED :: int where
  "LOOP_DETECTED = 508"

definition NOT_EXTENDED :: int where
  "NOT_EXTENDED = 510"

definition NETWORK_AUTHENTICATION_REQUIRED :: int where
  "NETWORK_AUTHENTICATION_REQUIRED = 511"

text \<open>
  The value exports of the module, name and bound constant, in declaration order.
\<close>

definition exports :: "(string \<times> int) list" where
  "exports =
    [(''CONTINUE'', CONTINUE), (''SWITCHING_PROTOCOLS'', SWITCHING_PROTOCOLS),
     (''PROCESSING'', PROCESSING), (''EARLY_HINTS'', EARLY_HINTS), (''OK'', OK),
     (''CREATED'', CREATED), (''ACCEPTED'', ACCEPTED),
     (''NON_AUTHORITATIVE_INFORMATION'', NON_AUTHORITATIVE_INFORMATION),
     (''NO_CONTENT'', NO_CONTENT), (''RESET_CONTENT'', RESET_CONTENT),
     (''PARTIAL_CONTENT'', PARTIAL_CONTENT), (''MULTI_STATUS'', MULTI_STATUS),
     (''ALREADY_REPORTED'', ALREADY_REPORTED), (''IM_USED'', IM_USED),
     (''MULTIPLE_CHOICES'', MULTIPLE_CHOICES), (''MOVED_PERMANENTLY'', MOVED_PERMANENTLY),
     (''FOUND'', FOUND), (''SEE_OTHER'', SEE_OTHER), (''NOT_MODIFIED'', NOT_MODIFIED),
     (''USE_PROXY'', USE_PROXY), (''SWITCH_PROXY'', SWITCH_PROXY),
     (''TEMPORARY_REDIRECT'', TEMPORARY_REDIRECT),
     (''PERMANENT_REDIRECT'', PERMANENT_REDIRECT), (''BAD_REQUEST'', BAD_REQUEST),
     (''UNAUTHORISED'', UNAUTHORISED), (''PAYMENT_REQUIRED'', PAYMENT_REQUIRED),
     (''FORBIDDEN'', FORBIDDEN), (''NOT_FOUND'', NOT_FOUND),
     (''METHOD_NOT_ALLOWED'', METHOD_NOT_ALLOWED), (''NOT_ACCEPTABLE'', NOT_ACCEPTABLE),
     (''PROXY_AUTHENTICATION_REQUIRED'', PROXY_AUTHENTICATION_REQUIRED),
     (''REQUEST_TIMEOUT'', REQUEST_TIMEOUT), (''CONFLICT'', CONFLICT), (''GONE'', GONE),
     (''LENGTH_REQUIRED'', LENGTH_REQUIRED),
     (''PRECONDITION_FAILED'', PRECONDITION_FAILED),
     (''PAYLOAD_TOO_LARGE'', PAYLOAD_TOO_LARGE), (''URI_TOO_LONG'', URI_TOO_LONG),
     (''UNSUPPORTED_MEDIA_TYPE'', UNSUPPORTED_MEDIA_TYPE),
     (''RANGE_NOT_SATISFIABLE'', RANGE_NOT_SATISFIABLE),
     (''EXPECTATION_FAILED'', EXPECTATION_FAILED), (''IM_A_TEAPOT'', IM_A_TEAPOT),
     (''MISDIRECTED_REQUEST'', MISDIRECTED_REQUEST),
     (''UNPROCESSABLE_ENTRY'', UNPROCESSABLE_ENTRY), (''LOCKED'', LOCKED),
     (''FAILED_DEPENDENCY'', FAILED_DEPENDENCY), (''TOO_EARLY'', TOO_EARLY),
     (''UPGRADE_REQUIRED'', UPGRADE_REQUIRED),
     (''PRECONDITION_REQUIRED'', PRECONDITION_REQUIRED),
     (''TOO_MANY_REQUESTS'', TOO_MANY_REQUESTS),
     (''REQUEST_HEADER_FIELDS_TOO_LARGE'', REQUEST_HEADER_FIELDS_TOO_LARGE),
     (''UNAVAILABLE_FOR_LEGAL_REASONS'', UNAVAILABLE_FOR_LEGAL_REASONS),
     (''INTERNAL_SERVER_ERROR'', INTERNAL_SERVER_ERROR),
     (''NOT_IMPLEMENTED'', NOT_IMPLEMENTED), (''BAD_GATEWAY'', BAD_GATEWAY),
     (''SERVICE_UNAVAILABLE'', SERVICE_UNAVAILABLE),
     (''GATEWAY_TIMEOUT'', GATEWAY_TIMEOUT),
     (''HTTP_VERSION_NOT_SUPPORTED'', HTTP_VERSION_NOT_SUPPORTED),
     (''VARIANT_ALSO_NEGOTIATES'', VARIANT_ALSO_NEGOTIATES),
     (''INSUFFICIENT_STORAGE'', INSUFFICIENT_STORAGE), (''LOOP_DETECTED'', LOOP_DETECTED),
     (''NOT_EXTENDED'', NOT_EXTENDED),
     (''NETWORK_AUTHENTICATION_REQUIRED'', NETWORK_AUTHENTICATION_REQUIRED)]"

subsection \<open>Type namespace: the literal types\<close>

definition CONTINUE_ty :: "int set" where
  "CONTINUE_ty = {100}"

definition SWITCHING_PROTOCOLS_ty :: "int set" where
  "SWITCHING_PROTOCOLS_ty = {101}"

definition PROCESSING_ty :: "int set" where
  "PROCESSING_ty = {102}"

definition EARLY_HINTS_ty :: "int set" where
  "EARLY_HINTS_ty = {103}"

definition OK_ty :: "int set" where
  "OK_ty = {200}"

definition CREATED_ty :: "int set" where
  "CREATED_ty = {201}"

definition ACCEPTED_ty :: "int set" where
  "ACCEPTED_ty = {202}"

definition NON_AUTHORITATIVE_INFORMATION_ty :: "int set" where
  "NON_AUTHORITATIVE_INFORMATION_ty = {203}"

definition NO_CONTENT_ty :: "int set" where
  "NO_CONTENT_ty = {204}"

definition RESET_CONTENT_ty :: "int set" where
  "RESET_CONTENT_ty = {205}"

definition PARTIAL_CONTENT_ty :: "int set" where
  "PARTIAL_CONTENT_ty = {206}"

definition MULTI_STATUS_ty :: "int set" where
  "MULTI_STATUS_ty = {207}"

definition ALREADY_REPORTED_ty :: "int set" where
  "ALREADY_REPORTED_ty = {208}"

definition IM_USED_ty :: "int set" where
  "IM_USED_ty = {226}"

definition MULTIPLE_CHOICES_ty :: "int set" where
  "MULTIPLE_CHOICES_ty = {300}"

definition MOVED_PERMANENTLY_ty :: "int set" where
  "MOVED_PERMANENTLY_ty = {301}"

definition FOUND_ty :: "int set" where
  "FOUND_ty = {302}"

definition SEE_OTHER_ty :: "int set" where
  "SEE_OTHER_ty = {303}"

definition NOT_MODIFIED_ty :: "int set" where
  "NOT_MODIFIED_ty = {304}"

definition USE_PROXY_ty :: "int set" where
  "USE_PROXY_ty = {305}"

definition SWITCH_PROXY_ty :: "int set" where
  "SWITCH_PROXY_ty = {306}"

definition TEMPORARY_REDIRECT_ty :: "int set" where
  "TEMPORARY_REDIRECT_ty = {307}"

definition PERMANENT_REDIRECT_ty :: "int set" where
  "PERMANENT_REDIRECT_ty = {308}"

definition BAD_REQUEST_ty :: "int set" where
  "BAD_REQUEST_ty = {400}"

definition UNAUTHORISED_ty :: "int set" where
  "UNAUTHORISED_ty = {401}"

definition PAYMENT_REQUIRED_ty :: "int set" where
  "PAYMENT_REQUIRED_ty = {402}"

definition FORBIDDEN_ty :: "int set" where
  "FORBIDDEN_ty = {403}"

definition NOT_FOUND_ty :: "int set" where
  "NOT_FOUND_ty = {404}"

definition METHOD_NOT_ALLOWED_ty :: "int set" where
  "METHOD_NOT_ALLOWED_ty = {405}"

definition NOT_ACCEPTABLE_ty :: "int set" where
  "NOT_ACCEPTABLE_ty = {406}"

definition PROXY_AUTHENTICATION_REQUIRED_ty :: "int set" where
  "PROXY_AUTHENTICATION_REQUIRED_ty = {407}"

definition REQUEST_TIMEOUT_ty :: "int set" where
  "REQUEST_TIMEOUT_ty = {408}"

definition CONFLICT_ty :: "int set" where
  "CONFLICT_ty = {409}"

definition GONE_ty :: "int set" where
  "GONE_ty = {410}"

definition LENGTH_REQUIRED_ty :: "int set" where
  "LENGTH_REQUIRED_ty = {411}"

definition PRECONDITION_FAILED_ty :: "int set" where
  "PRECONDITION_FAILED_ty = {412}"

definition PAYLOAD_TOO_LARGE_ty :: "int set" where
  "PAYLOAD_TOO_LARGE_ty = {413}"

definition URI_TOO_LONG_ty :: "int set" where
  "URI_TOO_LONG_ty = {414}"

definition UNSUPPORTED_MEDIA_TYPE_ty :: "int set" where
  "UNSUPPORTED_MEDIA_TYPE_ty = {415}"

definition RANGE_NOT_SATISFIABLE_ty :: "int set" where
  "RANGE_NOT_SATISFIABLE_ty = {416}"

definition EXPECTATION_FAILED_ty :: "int set" where
  "EXPECTATION_FAILED_ty = {417}"

definition IM_A_TEAPOT_ty :: "int set" where
  "IM_A_TEAPOT_ty = {418}"

definition MISDIRECTED_REQUEST_ty :: "int set" where
  "MISDIRECTED_REQUEST_ty = {421}"

definition UNPROCESSABLE_ENTRY_ty :: "int set" where
  "UNPROCESSABLE_ENTRY_ty = {422}"

definition LOCKED_ty :: "int set" where
  "LOCKED_ty = {423}"

definition FAILED_DEPENDENCY_ty :: "int set" where
  "FAILED_DEPENDENCY_ty = {424}"

definition TOO_EARLY_ty :: "int set" where
  "TOO_EARLY_ty = {425}"

definition UPGRADE_REQUIRED_ty :: "int set" where
  "UPGRADE_REQUIRED_ty = {426}"

definition PRECONDITION_REQUIRED_ty :: "int set" where
  "PRECONDITION_REQUIRED_ty = {428}"

definition TOO_MANY_REQUESTS_ty :: "int set" where
  "TOO_MANY_REQUESTS_ty = {429}"

definition REQUEST_HEADER_FIELDS_TOO_LARGE_ty :: "int set" where
  "REQUEST_HEADER_FIELDS_TOO_LARGE_ty = {431}"

definition UNAVAILABLE_FOR_LEGAL_REASONS_ty :: "int set" where
  "UNAVAILABLE_FOR_LEGAL_REASONS_ty = {451}"

definition INTERNAL_SERVER_ERROR_ty :: "int set" where
  "INTERNAL_SERVER_ERROR_ty = {500}"

definition NOT_IMPLEMENTED_ty :: "int set" where
  "NOT_IMPLEMENTED_ty = {501}"

definition BAD_GATEWAY_ty :: "int set" where
  "BAD_GATEWAY_ty = {502}"

definition SERVICE_UNAVAILABLE_ty :: "int set" where
  "SERVICE_UNAVAILABLE_ty = {503}"

definition GATEWAY_TIMEOUT_ty :: "int set" where
  "GATEWAY_TIMEOUT_ty = {504}"

definition HTTP_VERSION_NOT_SUPPORTED_ty :: "int set" where
  "HTTP_VERSION_NOT_SUPPORTED_ty = {505}"

definition VARIANT_ALSO_NEGOTIATES_ty :: "int set" where
  "VARIANT_ALSO_NEGOTIATES_ty = {506}"

definition INSUFFICIENT_STORAGE_ty :: "int set" where
  "INSUFFICIENT_STORAGE_ty = {507}"

definition LOOP_DETECTED_ty :: "int set" where
  "LOOP_DETECTED_ty = {508}"

definition NOT_EXTENDED_ty :: "int set" where
  "NOT_EXTENDED_ty = {510}"

definition NETWORK_AUTHENTICATION_REQUIRED_ty :: "int set" where
  "NETWORK_AUTHENTICATION_REQUIRED_ty = {511}"

text \<open>
  The literal-type exports of the module, name and type, in declaration order.
\<close>

definition type_exports :: "(string \<times> int set) list" where
  "type_exports =
    [(''CONTINUE'', CONTINUE_ty), (''SWITCHING_PROTOCOLS'', SWITCHING_PROTOCOLS_ty),
     (''PROCESSING'', PROCESSING_ty), (''EARLY_HINTS'', EARLY_HINTS_ty), (''OK'', OK_ty),
     (''CREATED'', CREATED_ty), (''ACCEPTED'', ACCEPTED_ty),
     (''NON_AUTHORITATIVE_INFORMATION'', NON_AUTHORITATIVE_INFORMATION_ty),
     (''NO_CONTENT'', NO_CONTENT_ty), (''RESET_CONTENT'', RESET_CONTENT_ty),
     (''PARTIAL_CONTENT'', PARTIAL_CONTENT_ty), (''MULTI_STATUS'', MULTI_STATUS_ty),
     (''ALREADY_REPORTED'', ALREADY_REPORTED_ty), (''IM_USED'', IM_USED_ty),
     (''MULTIPLE_CHOICES'', MULTIPLE_CHOICES_ty),
     (''MOVED_PERMANENTLY'', MOVED_PERMANENTLY_ty), (''FOUND'', FOUND_ty),
     (''SEE_OTHER'', SEE_OTHER_ty), (''NOT_MODIFIED'', NOT_MODIFIED_ty),
     (''USE_PROXY'', USE_PROXY_ty), (''SWITCH_PROXY'', SWITCH_PROXY_ty),
     (''TEMPORARY_REDIRECT'', TEMPORARY_REDIRECT_ty),
     (''PERMANENT_REDIRECT'', PERMANENT_REDIRECT_ty), (''BAD_REQUEST'', BAD_REQUEST_ty),
     (''UNAUTHORISED'', UNAUTHORISED_ty), (''PAYMENT_REQUIRED'', PAYMENT_REQUIRED_ty),
     (''FORBIDDEN'', FORBIDDEN_ty), (''NOT_FOUND'', NOT_FOUND_ty),
     (''METHOD_NOT_ALLOWED'', METHOD_NOT_ALLOWED_ty),
     (''NOT_ACCEPTABLE'', NOT_ACCEPTABLE_ty),
     (''PROXY_AUTHENTICATION_REQUIRED'', PROXY_AUTHENTICATION_REQUIRED_ty),
     (''REQUEST_TIMEOUT'', REQUEST_TIMEOUT_ty), (''CONFLICT'', CONFLICT_ty),
     (''GONE'', GONE_ty), (''LENGTH_REQUIRED'', LENGTH_REQUIRED_ty),
     (''PRECONDITION_FAILED'', PRECONDITION_FAILED_ty),
     (''PAYLOAD_TOO_LARGE'', PAYLOAD_TOO_LARGE_ty), (''URI_TOO_LONG'', URI_TOO_LONG_ty),
     (''UNSUPPORTED_MEDIA_TYPE'', UNSUPPORTED_MEDIA_TYPE_ty),
     (''RANGE_NOT_SATISFIABLE'', RANGE_NOT_SATISFIABLE_ty),
     (''EXPECTATION_FAILED'', EXPECTATION_FAILED_ty), (''IM_A_TEAPOT'', IM_A_TEAPOT_ty),
     (''MISDIRECTED_REQUEST'', MISDIRECTED_REQUEST_ty),
     (''UNPROCESSABLE_ENTRY'', UNPROCESSABLE_ENTRY_ty), (''LOCKED'', LOCKED_ty),
     (''FAILED_DEPENDENCY'', FAILED_DEPENDENCY_ty), (''TOO_EARLY'', TOO_EARLY_ty),
     (''UPGRADE_REQUIRED'', UPGRADE_REQUIRED_ty),
     (''PRECONDITION_REQUIRED'', PRECONDITION_REQUIRED_ty),
     (''TOO_MANY_REQUESTS'', TOO_MANY_REQUESTS_ty),
     (''REQUEST_HEADER_FIELDS_TOO_LARGE'', REQUEST_HEADER_FIELDS_TOO_LARGE_ty),
     (''UNAVAILABLE_FOR_LEGAL_REASONS'', UNAVAILABLE_FOR_LEGAL_REASONS_ty),
     (''INTERNAL_SERVER_ERROR'', INTERNAL_SERVER_ERROR_ty),
     (''NOT_IMPLEMENTED'', NOT_IMPLEMENTED_ty), (''BAD_GATEWAY'', BAD_GATEWAY_ty),
     (''SERVICE_UNAVAILABLE'', SERVICE_UNAVAILABLE_ty),
     (''GATEWAY_TIMEOUT'', GATEWAY_TIMEOUT_ty),
     (''HTTP_VERSION_NOT_SUPPORTED'', HTTP_VERSION_NOT_SUPPORTED_ty),
     (''VARIANT_ALSO_NEGOTIATES'', VARIANT_ALSO_NEGOTIATES_ty),
     (''INSUFFICIENT_STORAGE'', INSUFFICIENT_STORAGE_ty),
     (''LOOP_DETECTED'', LOOP_DETECTED_ty), (''NOT_EXTENDED'', NOT_EXTENDED_ty),
     (''NETWORK_AUTHENTICATION_REQUIRED'', NETWORK_AUTHENTICATION_REQUIRED_ty)]"

subsection \<open>Type namespace: the union types\<close>

definition Informational :: "int set" where
  "Informational =
     CONTINUE_ty \<union> SWITCHING_PROTOCOLS_ty \<union> PROCESSING_ty \<union>
     EARLY_HINTS_ty"

definition Success :: "int set" where
  "Success =
     OK_ty \<union> CREATED_ty \<union> ACCEPTED_ty \<union>
     NON_AUTHORITATIVE_INFORMATION_ty \<union> NO_CONTENT_ty \<union>
     RESET_CONTENT_ty \<union> PARTIAL_CONTENT_ty \<union> MULTI_STATUS_ty \<union>
     ALREADY_REPORTED_ty \<union> IM_USED_ty"

definition Redirection :: "int set" where
  "Redirection =
     MULTIPLE_CHOICES_ty \<union> MOVED_PERMANENTLY_ty \<union> FOUND_ty \<union>
     SEE_OTHER_ty \<union> NOT_MODIFIED_ty \<union> USE_PROXY_ty \<union>
     SWITCH_PROXY_ty \<union> TEMPORARY_REDIRECT_ty \<union> PERMANENT_REDIRECT_ty"

definition ClientError :: "int set" where
  "ClientError =
     BAD_REQUEST_ty \<union> UNAUTHORISED_ty \<union> PAYMENT_REQUIRED_ty \<union>
     FORBIDDEN_ty \<union> NOT_FOUND_ty \<union> METHOD_NOT_ALLOWED_ty \<union>
     NOT_ACCEPTABLE_ty \<union> PROXY_AUTHENTICATION_REQUIRED_ty \<union>
     REQUEST_TIMEOUT_ty \<union> CONFLICT_ty \<union> GONE_ty \<union>
     LENGTH_REQUIRED_ty \<union> PRECONDITION_FAILED_ty \<union>
     PAYLOAD_TOO_LARGE_ty \<union> URI_TOO_LONG_ty \<union>
     UNSUPPORTED_MEDIA_TYPE_ty \<union> RANGE_NOT_SATISFIABLE_ty \<union>
     EXPECTATION_FAILED_ty \<union> IM_A_TEAPOT_ty \<union> MISDIRECTED_REQUEST_ty \<union>
     UNPROCESSABLE_ENTRY_ty \<union> LOCKED_ty \<union> FAILED_DEPENDENCY_ty \<union>
     TOO_EARLY_ty \<union> UPGRADE_REQUIRED_ty \<union> PRECONDITION_REQUIRED_ty \<union>
     TOO_MANY_REQUESTS_ty \<union> REQUEST_HEADER_FIELDS_TOO_LARGE_ty \<union>
     UNAVAILABLE_FOR_LEGAL_REASONS_ty"

definition ServerError :: "int set" where
  "ServerError =
     INTERNAL_SERVER_ERROR_ty \<union> NOT_IMPLEMENTED_ty \<union> BAD_GATEWAY_ty \<union>
     SERVICE_UNAVAILABLE_ty \<union> GATEWAY_TIMEOUT_ty \<union>
     HTTP_VERSION_NOT_SUPPORTED_ty \<union> VARIANT_ALSO_NEGOTIATES_ty \<union>
     INSUFFICIENT_STORAGE_ty \<union> LOOP_DETECTED_ty \<union> NOT_EXTENDED_ty \<union>
     NETWORK_AUTHENTICATION_REQUIRED_ty"

definition HTTPStatus :: "int set" where
  "HTTPStatus =
     Informational \<union> Success \<union> Redirection \<union> ClientError \<union>
     ServerError"

section \<open>The registry described by the specification\<close>

text \<open>
  The specification describes the module as a registry of status entries with lookup
  operations. The module itself declares neither an entry type nor any function, so
  the definitions of this section follow the wording of the specification; the data
  they range over are the declarations of the module above.
\<close>

text \<open>
  Modelled from the spec: the five class tags of the specification, missing from the
  module as values; the module has the five union types only.
\<close>

datatype category =
  CatInformational | CatSuccess | CatRedirection | CatClientError | CatServerError

text \<open>The union type of the module that stands for each class tag.\<close>

fun members :: "category \<Rightarrow> int set" where
  "members CatInformational = Informational"
| "members CatSuccess = Success"
| "members CatRedirection = Redirection"
| "members CatClientError = ClientError"
| "members CatServerError = ServerError"

text \<open>The class tags, in the order in which \<^verbatim>\<open>HTTPStatus\<close> lists their union types.\<close>

definition categories :: "category list" where
  "categories = [CatInformational, CatSuccess, CatRedirection, CatClientError, CatServerError]"

text \<open>
  Modelled from the spec: the class tag computed from a code, missing from the module,
  which never computes a category. The specification gives it as
  \<open>category(code) = floor(code / 100)\<close>, with 1 = Informational, 2 = Success,
  3 = Redirection, 4 = ClientError and 5 = ServerError.
\<close>

definition spec_category :: "int \<Rightarrow> category option" where
  "spec_category c =
     (if c div 100 = 1 then Some CatInformational
      else if c div 100 = 2 then Some CatSuccess
      else if c div 100 = 3 then Some CatRedirection
      else if c div 100 = 4 then Some CatClientError
      else if c div 100 = 5 then Some CatServerError
      else None)"

text \<open>
  Modelled from the spec: the canonical code table of section 6 of the specification,
  value and name, in the order in which the specification lists it.
\<close>

definition spec_table :: "(int \<times> string) list" where
  "spec_table =
    [(100, ''CONTINUE''), (101, ''SWITCHING_PROTOCOLS''), (102, ''PROCESSING''),
     (103, ''EARLY_HINTS''), (200, ''OK''), (201, ''CREATED''), (202, ''ACCEPTED''),
     (203, ''NON_AUTHORITATIVE_INFORMATION''), (204, ''NO_CONTENT''),
     (205, ''RESET_CONTENT''), (206, ''PARTIAL_CONTENT''), (207, ''MULTI_STATUS''),
     (208, ''ALREADY_REPORTED''), (226, ''IM_USED''), (300, ''MULTIPLE_CHOICES''),
     (301, ''MOVED_PERMANENTLY''), (302, ''FOUND''), (303, ''SEE_OTHER''),
     (304, ''NOT_MODIFIED''), (305, ''USE_PROXY''), (306, ''SWITCH_PROXY''),
     (307, ''TEMPORARY_REDIRECT''), (308, ''PERMANENT_REDIRECT''), (400, ''BAD_REQUEST''),
     (401, ''UNAUTHORISED''), (402, ''PAYMENT_REQUIRED''), (403, ''FORBIDDEN''),
     (404, ''NOT_FOUND''), (405, ''METHOD_NOT_ALLOWED''), (406, ''NOT_ACCEPTABLE''),
     (407, ''PROXY_AUTHENTICATION_REQUIRED''), (408, ''REQUEST_TIMEOUT''),
     (409, ''CONFLICT''), (410, ''GONE''), (411, ''LENGTH_REQUIRED''),
     (412, ''PRECONDITION_FAILED''), (413, ''PAYLOAD_TOO_LARGE''), (414, ''URI_TOO_LONG''),
     (415, ''UNSUPPORTED_MEDIA_TYPE''), (416, ''RANGE_NOT_SATISFIABLE''),
     (417, ''EXPECTATION_FAILED''), (418, ''IM_A_TEAPOT''), (421, ''MISDIRECTED_REQUEST''),
     (422, ''UNPROCESSABLE_ENTRY''), (423, ''LOCKED''), (424, ''FAILED_DEPENDENCY''),
     (425, ''TOO_EARLY''), (426, ''UPGRADE_REQUIRED''), (428, ''PRECONDITION_REQUIRED''),
     (429, ''TOO_MANY_REQUESTS''), (431, ''REQUEST_HEADER_FIELDS_TOO_LARGE''),
     (451, ''UNAVAILABLE_FOR_LEGAL_REASONS''), (500, ''INTERNAL_SERVER_ERROR''),
     (501, ''NOT_IMPLEMENTED''), (502, ''BAD_GATEWAY''), (503, ''SERVICE_UNAVAILABLE''),
     (504, ''GATEWAY_TIMEOUT''), (505, ''HTTP_VERSION_NOT_SUPPORTED''),
     (506, ''VARIANT_ALSO_NEGOTIATES''), (507, ''INSUFFICIENT_STORAGE''),
     (508, ''LOOP_DETECTED''), (510, ''NOT_EXTENDED''),
     (511, ''NETWORK_AUTHENTICATION_REQUIRED'')]"

text \<open>
  Modelled from the spec: the row type \<open>StatusEntry\<close>, missing from the module. The
  \<open>description\<close> field of the specification is the documentation comment of the
  declaration; no operation reads it and it is left out.
\<close>

record StatusEntry =
  code :: int
  name :: string
  category :: category

text \<open>
  Modelled from the spec: the rows of one class tag; the registry is missing from the
  module as a value. The rows are built from the declarations of the module: each
  exported constant whose value inhabits the union type of the tag gives one row, in
  declaration order.
\<close>

definition entries_of :: "category \<Rightarrow> StatusEntry list" where
  "entries_of k =
     map (\<lambda>(n, c). \<lparr>code = c, name = n, category = k\<rparr>)
       (filter (\<lambda>(n, c). c \<in> members k) exports)"

text \<open>
  Modelled from the spec: the whole registry, the rows of the five class tags in turn.
\<close>

definition registry :: "StatusEntry list" where
  "registry = concat (map entries_of categories)"

text \<open>
  Modelled from the spec: the single error kind of the specification, missing from the
  module.
\<close>

datatype error = NotFound

text \<open>
  Modelled from the spec: \<open>lookupByCode\<close>, missing from the module. It returns the entry
  whose code matches exactly and fails with \<open>NotFound\<close> otherwise.
\<close>

definition lookupByCode :: "int \<Rightarrow> error + StatusEntry" where
  "lookupByCode c =
     (case find (\<lambda>e. code e = c) registry of
        None \<Rightarrow> Inl NotFound
      | Some e \<Rightarrow> Inr e)"

text \<open>
  Modelled from the spec: \<open>lookupByName\<close>, missing from the module. The match is exact
  and case-sensitive, which is equality of strings.
\<close>

definition lookupByName :: "string \<Rightarrow> error + StatusEntry" where
  "lookupByName s =
     (case find (\<lambda>e. name e = s) registry of
        None \<Rightarrow> Inl NotFound
      | Some e \<Rightarrow> Inr e)"

text \<open>
  Modelled from the spec: \<open>listByCategory\<close>, missing from the module. It returns all
  entries whose category matches, ordered by ascending code.
\<close>

definition listByCategory :: "category \<Rightarrow> StatusEntry list" where
  "listByCategory k = sort_key code (filter (\<lambda>e. category e = k) registry)"

text \<open>
  Modelled from the spec: \<open>allEntries\<close>, missing from the module. It returns the full
  registry in ascending code order.
\<close>

definition allEntries :: "StatusEntry list" where
  "allEntries = sort_key code registry"


section \<open>Unfolding the declarations\<close>

lemmas const_defs =
  CONTINUE_def SWITCHING_PROTOCOLS_def PROCESSING_def EARLY_HINTS_def OK_def CREATED_def
  ACCEPTED_def NON_AUTHORITATIVE_INFORMATION_def NO_CONTENT_def RESET_CONTENT_def
  PARTIAL_CONTENT_def MULTI_STATUS_def ALREADY_REPORTED_def IM_USED_def
  MULTIPLE_CHOICES_def MOVED_PERMANENTLY_def FOUND_def SEE_OTHER_def NOT_MODIFIED_def
  USE_PROXY_def SWITCH_PROXY_def TEMPORARY_REDIRECT_def PERMANENT_REDIRECT_def
  BAD_REQUEST_def UNAUTHORISED_def PAYMENT_REQUIRED_def FORBIDDEN_def NOT_FOUND_def
  METHOD_NOT_ALLOWED_def NOT_ACCEPTABLE_def PROXY_AUTHENTICATION_REQUIRED_def
  REQUEST_TIMEOUT_def CONFLICT_def GONE_def LENGTH_REQUIRED_def PRECONDITION_FAILED_def
  PAYLOAD_TOO_LARGE_def URI_TOO_LONG_def UNSUPPORTED_MEDIA_TYPE_def
  RANGE_NOT_SATISFIABLE_def EXPECTATION_FAILED_def IM_A_TEAPOT_def MISDIRECTED_REQUEST_def
  UNPROCESSABLE_ENTRY_def LOCKED_def FAILED_DEPENDENCY_def TOO_EARLY_def
  UPGRADE_REQUIRED_def PRECONDITION_REQUIRED_def TOO_MANY_REQUESTS_def
  REQUEST_HEADER_FIELDS_TOO_LARGE_def UNAVAILABLE_FOR_LEGAL_REASONS_def
  INTERNAL_SERVER_ERROR_def NOT_IMPLEMENTED_def BAD_GATEWAY_def SERVICE_UNAVAILABLE_def
  GATEWAY_TIMEOUT_def HTTP_VERSION_NOT_SUPPORTED_def VARIANT_ALSO_NEGOTIATES_def
  INSUFFICIENT_STORAGE_def LOOP_DETECTED_def NOT_EXTENDED_def
  NETWORK_AUTHENTICATION_REQUIRED_def

lemmas type_defs =
  CONTINUE_ty_def SWITCHING_PROTOCOLS_ty_def PROCESSING_ty_def EARLY_HINTS_ty_def OK_ty_def
  CREATED_ty_def ACCEPTED_ty_def NON_AUTHORITATIVE_INFORMATION_ty_def NO_CONTENT_ty_def
  RESET_CONTENT_ty_def PARTIAL_CONTENT_ty_def MULTI_STATUS_ty_def ALREADY_REPORTED_ty_def
  IM_USED_ty_def MULTIPLE_CHOICES_ty_def MOVED_PERMANENTLY_ty_def FOUND_ty_def
  SEE_OTHER_ty_def NOT_MODIFIED_ty_def USE_PROXY_ty_def SWITCH_PROXY_ty_def
  TEMPORARY_REDIRECT_ty_def PERMANENT_REDIRECT_ty_def BAD_REQUEST_ty_def
  UNAUTHORISED_ty_def PAYMENT_REQUIRED_ty_def FORBIDDEN_ty_def NOT_FOUND_ty_def
  METHOD_NOT_ALLOWED_ty_def NOT_ACCEPTABLE_ty_def PROXY_AUTHENTICATION_REQUIRED_ty_def
  REQUEST_TIMEOUT_ty_def CONFLICT_ty_def GONE_ty_def LENGTH_REQUIRED_ty_def
  PRECONDITION_FAILED_ty_def PAYLOAD_TOO_LARGE_ty_def URI_TOO_LONG_ty_def
  UNSUPPORTED_MEDIA_TYPE_ty_def RANGE_NOT_SATISFIABLE_ty_def EXPECTATION_FAILED_ty_def
  IM_A_TEAPOT_ty_def MISDIRECTED_REQUEST_ty_def UNPROCESSABLE_ENTRY_ty_def LOCKED_ty_def
  FAILED_DEPENDENCY_ty_def TOO_EARLY_ty_def UPGRADE_REQUIRED_ty_def
  PRECONDITION_REQUIRED_ty_def TOO_MANY_REQUESTS_ty_def
  REQUEST_HEADER_FIELDS_TOO_LARGE_ty_def UNAVAILABLE_FOR_LEGAL_REASONS_ty_def
  INTERNAL_SERVER_ERROR_ty_def NOT_IMPLEMENTED_ty_def BAD_GATEWAY_ty_def
  SERVICE_UNAVAILABLE_ty_def GATEWAY_TIMEOUT_ty_def HTTP_VERSION_NOT_SUPPORTED_ty_def
  VARIANT_ALSO_NEGOTIATES_ty_def INSUFFICIENT_STORAGE_ty_def LOOP_DETECTED_ty_def
  NOT_EXTENDED_ty_def NETWORK_AUTHENTICATION_REQUIRED_ty_def

lemmas union_defs =
  Informational_def Success_def Redirection_def ClientError_def ServerError_def

section \<open>The declarations, evaluated\<close>

text \<open>
  The facts of this section unfold the declarations to numerals once, so that the
  theorems below compute on explicit lists and sets.
\<close>

lemma exports_eval:
  "exports =
    [(''CONTINUE'', 100), (''SWITCHING_PROTOCOLS'', 101), (''PROCESSING'', 102),
     (''EARLY_HINTS'', 103), (''OK'', 200), (''CREATED'', 201), (''ACCEPTED'', 202),
     (''NON_AUTHORITATIVE_INFORMATION'', 203), (''NO_CONTENT'', 204),
     (''RESET_CONTENT'', 205), (''PARTIAL_CONTENT'', 206), (''MULTI_STATUS'', 207),
     (''ALREADY_REPORTED'', 208), (''IM_USED'', 226), (''MULTIPLE_CHOICES'', 300),
     (''MOVED_PERMANENTLY'', 301), (''FOUND'', 302), (''SEE_OTHER'', 303),
     (''NOT_MODIFIED'', 304), (''USE_PROXY'', 305), (''SWITCH_PROXY'', 306),
     (''TEMPORARY_REDIRECT'', 307), (''PERMANENT_REDIRECT'', 308), (''BAD_REQUEST'', 400),
     (''UNAUTHORISED'', 401), (''PAYMENT_REQUIRED'', 402), (''FORBIDDEN'', 403),
     (''NOT_FOUND'', 404), (''METHOD_NOT_ALLOWED'', 405), (''NOT_ACCEPTABLE'', 406),
     (''PROXY_AUTHENTICATION_REQUIRED'', 407), (''REQUEST_TIMEOUT'', 408),
     (''CONFLICT'', 409), (''GONE'', 410), (''LENGTH_REQUIRED'', 411),
     (''PRECONDITION_FAILED'', 412), (''PAYLOAD_TOO_LARGE'', 413), (''URI_TOO_LONG'', 414),
     (''UNSUPPORTED_MEDIA_TYPE'', 415), (''RANGE_NOT_SATISFIABLE'', 416),
     (''EXPECTATION_FAILED'', 417), (''IM_A_TEAPOT'', 418), (''MISDIRECTED_REQUEST'', 421),
     (''UNPROCESSABLE_ENTRY'', 422), (''LOCKED'', 423), (''FAILED_DEPENDENCY'', 424),
     (''TOO_EARLY'', 425), (''UPGRADE_REQUIRED'', 426), (''PRECONDITION_REQUIRED'', 428),
     (''TOO_MANY_REQUESTS'', 429), (''REQUEST_HEADER_FIELDS_TOO_LARGE'', 431),
     (''UNAVAILABLE_FOR_LEGAL_REASONS'', 451), (''INTERNAL_SERVER_ERROR'', 500),
     (''NOT_IMPLEMENTED'', 501), (''BAD_GATEWAY'', 502), (''SERVICE_UNAVAILABLE'', 503),
     (''GATEWAY_TIMEOUT'', 504), (''HTTP_VERSION_NOT_SUPPORTED'', 505),
     (''VARIANT_ALSO_NEGOTIATES'', 506), (''INSUFFICIENT_STORAGE'', 507),
     (''LOOP_DETECTED'', 508), (''NOT_EXTENDED'', 510),
     (''NETWORK_AUTHENTICATION_REQUIRED'', 511)]"
  by (simp add: exports_def const_defs)

lemma Informational_eval:
  "Informational =
    {100, 101, 102, 103}"
  by (simp add: Informational_def type_defs insert_commute)

lemma Success_eval:
  "Success =
    {200, 201, 202, 203, 204, 205, 206, 207, 208, 226}"
  by (simp add: Success_def type_defs insert_commute)

lemma Redirection_eval:
  "Redirection =
    {300, 301, 302, 303, 304, 305, 306, 307, 308}"
  by (simp add: Redirection_def type_defs insert_commute)

lemma ClientError_eval:
  "ClientError =
    {400, 401, 402, 403, 404, 405, 406, 407, 408, 409, 410, 411, 412, 413, 414, 415, 416,
     417, 418, 421, 422, 423, 424, 425, 426, 428, 429, 431, 451}"
  by (simp add: ClientError_def type_defs insert_commute)

lemma ServerError_eval:
  "ServerError =
    {500, 501, 502, 503, 504, 505, 506, 507, 508, 510, 511}"
  by (simp add: ServerError_def type_defs insert_commute)

lemmas members_eval =
  Informational_eval Success_eval Redirection_eval ClientError_eval ServerError_eval

lemma registry_eval:
  "registry =
    [\<lparr>code = 100, name = ''CONTINUE'', category = CatInformational\<rparr>,
     \<lparr>code = 101, name = ''SWITCHING_PROTOCOLS'', category = CatInformational\<rparr>,
     \<lparr>code = 102, name = ''PROCESSING'', category = CatInformational\<rparr>,
     \<lparr>code = 103, name = ''EARLY_HINTS'', category = CatInformational\<rparr>,
     \<lparr>code = 200, name = ''OK'', category = CatSuccess\<rparr>,
     \<lparr>code = 201, name = ''CREATED'', category = CatSuccess\<rparr>,
     \<lparr>code = 202, name = ''ACCEPTED'', category = CatSuccess\<rparr>,
     \<lparr>code = 203, name = ''NON_AUTHORITATIVE_INFORMATION'', category = CatSuccess\<rparr>,
     \<lparr>code = 204, name = ''NO_CONTENT'', category = CatSuccess\<rparr>,
     \<lparr>code = 205, name = ''RESET_CONTENT'', category = CatSuccess\<rparr>,
     \<lparr>code = 206, name = ''PARTIAL_CONTENT'', category = CatSuccess\<rparr>,
     \<lparr>code = 207, name = ''MULTI_STATUS'', category = CatSuccess\<rparr>,
     \<lparr>code = 208, name = ''ALREADY_REPORTED'', category = CatSuccess\<rparr>,
     \<lparr>code = 226, name = ''IM_USED'', category = CatSuccess\<rparr>,
     \<lparr>code = 300, name = ''MULTIPLE_CHOICES'', category = CatRedirection\<rparr>,
     \<lparr>code = 301, name = ''MOVED_PERMANENTLY'', category = CatRedirection\<rparr>,
     \<lparr>code = 302, name = ''FOUND'', category = CatRedirection\<rparr>,
     \<lparr>code = 303, name = ''SEE_OTHER'', category = CatRedirection\<rparr>,
     \<lparr>code = 304, name = ''NOT_MODIFIED'', category = CatRedirection\<rparr>,
     \<lparr>code = 305, name = ''USE_PROXY'', category = CatRedirection\<rparr>,
     \<lparr>code = 306, name = ''SWITCH_PROXY'', category = CatRedirection\<rparr>,
     \<lparr>code = 307, name = ''TEMPORARY_REDIRECT'', category = CatRedirection\<rparr>,
     \<lparr>code = 308, name = ''PERMANENT_REDIRECT'', category = CatRedirection\<rparr>,
     \<lparr>code = 400, name = ''BAD_REQUEST'', category = CatClientError\<rparr>,
     \<lparr>code = 401, name = ''UNAUTHORISED'', category = CatClientError\<rparr>,
     \<lparr>code = 402, name = ''PAYMENT_REQUIRED'', category = CatClientError\<rparr>,
     \<lparr>code = 403, name = ''FORBIDDEN'', category = CatClientError\<rparr>,
     \<lparr>code = 404, name = ''NOT_FOUND'', category = CatClientError\<rparr>,
     \<lparr>code = 405, name = ''METHOD_NOT_ALLOWED'', category = CatClientError\<rparr>,
     \<lparr>code = 406, name = ''NOT_ACCEPTABLE'', category = CatClientError\<rparr>,
     \<lparr>code = 407, name = ''PROXY_AUTHENTICATION_REQUIRED'', category = CatClientError\<rparr>,
     \<lparr>code = 408, name = ''REQUEST_TIMEOUT'', category = CatClientError\<rparr>,
     \<lparr>code = 409, name = ''CONFLICT'', category = CatClientError\<rparr>,
     \<lparr>code = 410, name = ''GONE'', category = CatClientError\<rparr>,
     \<lparr>code = 411, name = ''LENGTH_REQUIRED'', category = CatClientError\<rparr>,
     \<lparr>code = 412, name = ''PRECONDITION_FAILED'', category = CatClientError\<rparr>,
     \<lparr>code = 413, name = ''PAYLOAD_TOO_LARGE'', category = CatClientError\<rparr>,
     \<lparr>code = 414, name = ''URI_TOO_LONG'', category = CatClientError\<rparr>,
     \<lparr>code = 415, name = ''UNSUPPORTED_MEDIA_TYPE'', category = CatClientError\<rparr>,
     \<lparr>code = 416, name = ''RANGE_NOT_SATISFIABLE'', category = CatClientError\<rparr>,
     \<lparr>code = 417, name = ''EXPECTATION_FAILED'', category = CatClientError\<rparr>,
     \<lparr>code = 418, name = ''IM_A_TEAPOT'', category = CatClientError\<rparr>,
     \<lparr>code = 421, name = ''MISDIRECTED_REQUEST'', category = CatClientError\<rparr>,
     \<lparr>code = 422, name = ''UNPROCESSABLE_ENTRY'', category = CatClientError\<rparr>,
     \<lparr>code = 423, name = ''LOCKED'', category = CatClientError\<rparr>,
     \<lparr>code = 424, name = ''FAILED_DEPENDENCY'', category = CatClientError\<rparr>,
     \<lparr>code = 425, name = ''TOO_EARLY'', category = CatClientError\<rparr>,
     \<lparr>code = 426, name = ''UPGRADE_REQUIRED'', category = CatClientError\<rparr>,
     \<lparr>code = 428, name = ''PRECONDITION_REQUIRED'', category = CatClientError\<rparr>,
     \<lparr>code = 429, name = ''TOO_MANY_REQUESTS'', category = CatClientError\<rparr>,
     \<lparr>code = 431, name = ''REQUEST_HEADER_FIELDS_TOO_LARGE'', category = CatClientError\<rparr>,
     \<lparr>code = 451, name = ''UNAVAILABLE_FOR_LEGAL_REASONS'', category = CatClientError\<rparr>,
     \<lparr>code = 500, name = ''INTERNAL_SERVER_ERROR'', category = CatServerError\<rparr>,
     \<lparr>code = 501, name = ''NOT_IMPLEMENTED'', category = CatServerError\<rparr>,
     \<lparr>code = 502, name = ''BAD_GATEWAY'', category = CatServerError\<rparr>,
     \<lparr>code = 503, name = ''SERVICE_UNAVAILABLE'', category = CatServerError\<rparr>,
     \<lparr>code = 504, name = ''GATEWAY_TIMEOUT'', category = CatServerError\<rparr>,
     \<lparr>code = 505, name = ''HTTP_VERSION_NOT_SUPPORTED'', category = CatServerError\<rparr>,
     \<lparr>code = 506, name = ''VARIANT_ALSO_NEGOTIATES'', category = CatServerError\<rparr>,
     \<lparr>code = 507, name = ''INSUFFICIENT_STORAGE'', category = CatServerError\<rparr>,
     \<lparr>code = 508, name = ''LOOP_DETECTED'', category = CatServerError\<rparr>,
     \<lparr>code = 510, name = ''NOT_EXTENDED'', category = CatServerError\<rparr>,
     \<lparr>code = 511, name = ''NETWORK_AUTHENTICATION_REQUIRED'', category = CatServerError\<rparr>]"
  by (simp add: registry_def categories_def entries_of_def exports_eval members_eval)
lemma allEntries_eval: "allEntries = registry"
  by (simp add: allEntries_def registry_eval)

lemma listByCategory_ClientError_eval:
  "listByCategory CatClientError = filter (\<lambda>e. category e = CatClientError) registry"
  by (simp add: listByCategory_def registry_eval)

lemma find_Some_member: "find P xs = Some x \<Longrightarrow> x \<in> set xs \<and> P x"
  by (induction xs) (auto split: if_splits)

lemma lookupByCode_NotFound_iff:
  "lookupByCode c = Inl NotFound \<longleftrightarrow> c \<notin> code ` set registry"
proof (cases "find (\<lambda>e. code e = c) registry")
  case None
  then have "\<forall>e\<in>set registry. code e \<noteq> c" by (simp add: find_None_iff)
  with None show ?thesis by (auto simp add: lookupByCode_def)
next
  case (Some e)
  then have "e \<in> set registry \<and> code e = c" by (rule find_Some_member)
  with Some show ?thesis by (auto simp add: lookupByCode_def)
qed

lemma lookupByName_NotFound_iff:
  "lookupByName s = Inl NotFound \<longleftrightarrow> s \<notin> name ` set registry"
proof (cases "find (\<lambda>e. name e = s) registry")
  case None
  then have "\<forall>e\<in>set registry. name e \<noteq> s" by (simp add: find_None_iff)
  with None show ?thesis by (auto simp add: lookupByName_def)
next
  case (Some e)
  then have "e \<in> set registry \<and> name e = s" by (rule find_Some_member)
  with Some show ?thesis by (auto simp add: lookupByName_def)
qed

lemma lookupByCode_exact: "lookupByCode c = Inr e \<Longrightarrow> code e = c"
  by (auto simp add: lookupByCode_def split: option.splits dest: find_Some_member)

lemma lookupByName_exact: "lookupByName s = Inr e \<Longrightarrow> name e = s"
  by (auto simp add: lookupByName_def split: option.splits dest: find_Some_member)

lemma registry_codes: "code ` set registry = set (map snd exports)"
  by (simp add: registry_eval exports_eval)

lemma registry_names: "name ` set registry = set (map fst exports)"
  by (simp add: registry_eval exports_eval)

lemma members_spec_category: "c \<in> members k \<Longrightarrow> spec_category c = Some k"
  by (cases k) (auto simp add: members_eval spec_category_def)

lemma HTTPStatus_eval: "HTTPStatus = set (map snd exports)"
  by (simp add: HTTPStatus_def members_eval exports_eval insert_commute)

lemma HTTPStatus_members: "HTTPStatus = (\<Union>k. members k)"
proof
  show "HTTPStatus \<subseteq> (\<Union>k. members k)"
  proof
    fix c assume "c \<in> HTTPStatus"
    then consider "c \<in> members CatInformational" | "c \<in> members CatSuccess"
      | "c \<in> members CatRedirection" | "c \<in> members CatClientError"
      | "c \<in> members CatServerError"
      by (auto simp add: HTTPStatus_def)
    then show "c \<in> (\<Union>k. members k)" by cases blast+
  qed
next
  show "(\<Union>k. members k) \<subseteq> HTTPStatus"
  proof
    fix c assume "c \<in> (\<Union>k. members k)"
    then obtain k where "c \<in> members k" by blast
    then show "c \<in> HTTPStatus" by (cases k) (simp_all add: HTTPStatus_def)
  qed
qed

section \<open>The claims\<close>

text \<open>
  C1. The module exposes exactly one named integer constant per status code of the
  canonical table of the specification, each bound to the stated value, and no status
  constant outside that table: the name and value pairs of the exported constants are
  the rows of the table, there are as many constants as rows, and no value and no name
  occurs twice among the constants.
\<close>

theorem exports_are_spec_table:
  "set (map prod.swap exports) = set spec_table \<and>
   length exports = length spec_table \<and>
   distinct (map snd exports) \<and> distinct (map fst exports) \<and>
   CONTINUE = 100 \<and> NOT_FOUND = 404 \<and> NETWORK_AUTHENTICATION_REQUIRED = 511"
  by (simp add: exports_eval spec_table_def CONTINUE_def NOT_FOUND_def
      NETWORK_AUTHENTICATION_REQUIRED_def)

text \<open>
  C2. The category of every entry is the class tag given by \<open>floor(code / 100)\<close>: every
  member of a union type has the class tag of that union, and the value of every
  exported constant inhabits exactly one of the five unions.
\<close>

theorem category_is_hundreds_class:
  "(\<forall>k. \<forall>c\<in>members k. spec_category c = Some k) \<and>
   (\<forall>(n, c)\<in>set exports. \<exists>!k. c \<in> members k)"
proof
  show "\<forall>k. \<forall>c\<in>members k. spec_category c = Some k"
    using members_spec_category by blast
next
  show "\<forall>(n, c)\<in>set exports. \<exists>!k. c \<in> members k"
  proof (clarify)
    fix n c assume "(n, c) \<in> set exports"
    then have "c \<in> set (map snd exports)" by force
    then have "c \<in> (\<Union>k. members k)"
      using HTTPStatus_eval HTTPStatus_members by simp
    then obtain k where k: "c \<in> members k" by blast
    show "\<exists>!k. c \<in> members k"
    proof
      show "c \<in> members k" by (rule k)
    next
      fix k' assume "c \<in> members k'"
      then have "spec_category c = Some k'" by (rule members_spec_category)
      moreover have "spec_category c = Some k" using k by (rule members_spec_category)
      ultimately show "k' = k" by simp
    qed
  qed
qed

theorem category_is_hundreds_class_witness:
  "(404 \<in> members CatClientError \<and> spec_category 404 = Some CatClientError) \<and>
   ((''NOT_FOUND'', 404) \<in> set exports \<and> (\<exists>!k. 404 \<in> members k))"
proof -
  have m: "404 \<in> members CatClientError"
    by (simp add: ClientError_eval)
  have e: "(''NOT_FOUND'', 404) \<in> set exports"
    by (simp add: exports_eval)
  have a: "\<forall>k. \<forall>c\<in>members k. spec_category c = Some k"
    using category_is_hundreds_class by (rule conjunct1)
  have b: "\<forall>(n, c)\<in>set exports. \<exists>!k. c \<in> members k"
    using category_is_hundreds_class by (rule conjunct2)
  from a m have "spec_category 404 = Some CatClientError" by blast
  moreover from b e have "\<exists>!k. 404 \<in> members k" by fast
  ultimately show ?thesis using m e by simp
qed

text \<open>
  C3. No two entries share a code value and no two share a symbolic name: among the
  exported constants no value occurs twice and no name occurs twice.
\<close>

theorem exports_unique:
  "distinct (map snd exports) \<and> distinct (map fst exports)"
  by (simp add: exports_eval)

text \<open>
  C4, as amended. \<open>allEntries\<close> returns the full registry, of 63 entries, strictly
  ascending by code and with no duplicate entry. The claim gives the length as 62.
\<close>

theorem allEntries_length_not_62:
  "length allEntries \<noteq> 62"
  by (simp add: allEntries_eval registry_eval)

theorem allEntries_sorted_63:
  "set allEntries = set registry \<and> length allEntries = 63 \<and>
   length exports = 63 \<and>
   sorted_wrt (<) (map code allEntries) \<and> distinct allEntries"
  by (simp add: allEntries_eval registry_eval exports_eval)

text \<open>
  C5. \<open>listByCategory\<close> of the client errors returns the entries of the union type
  \<^verbatim>\<open>ClientError\<close>, ascending by code; the first has code 400, the last has code 451, and
  the code of every element lies between 400 and 499.
\<close>

theorem listByCategory_ClientError:
  "code ` set (listByCategory CatClientError) = ClientError \<and>
   listByCategory CatClientError \<noteq> [] \<and>
   sorted_wrt (<) (map code (listByCategory CatClientError)) \<and>
   code (hd (listByCategory CatClientError)) = 400 \<and>
   code (last (listByCategory CatClientError)) = 451 \<and>
   (\<forall>e\<in>set (listByCategory CatClientError). 400 \<le> code e \<and> code e \<le> 499)"
  by (simp add: listByCategory_ClientError_eval registry_eval ClientError_eval insert_commute)

theorem listByCategory_ClientError_witness:
  "\<lparr>code = 404, name = ''NOT_FOUND'', category = CatClientError\<rparr>
     \<in> set (listByCategory CatClientError) \<and>
   400 \<le> code \<lparr>code = 404, name = ''NOT_FOUND'', category = CatClientError\<rparr> \<and>
   code \<lparr>code = 404, name = ''NOT_FOUND'', category = CatClientError\<rparr> \<le> 499"
proof -
  have m: "\<lparr>code = 404, name = ''NOT_FOUND'', category = CatClientError\<rparr>
      \<in> set (listByCategory CatClientError)"
    by (simp add: listByCategory_ClientError_eval registry_eval)
  have "\<forall>e\<in>set (listByCategory CatClientError). 400 \<le> code e \<and> code e \<le> 499"
    using listByCategory_ClientError by blast
  with m show ?thesis by blast
qed

text \<open>
  C6. \<open>lookupByCode\<close> of 404 returns the entry named \<open>NOT_FOUND\<close>, and \<open>lookupByName\<close>
  of \<open>NOT_FOUND\<close> returns the entry of code 404.
\<close>

theorem lookup_NOT_FOUND:
  "lookupByCode 404 = Inr \<lparr>code = 404, name = ''NOT_FOUND'', category = CatClientError\<rparr> \<and>
   lookupByName ''NOT_FOUND'' =
     Inr \<lparr>code = 404, name = ''NOT_FOUND'', category = CatClientError\<rparr> \<and>
   NOT_FOUND = 404"
  by (simp add: lookupByCode_def lookupByName_def registry_eval NOT_FOUND_def)

text \<open>
  C7. \<open>lookupByCode\<close> fails with \<open>NotFound\<close> exactly on the integers that are not the
  value of an exported constant, and an entry it returns has exactly the code asked
  for; \<open>lookupByName\<close> fails with \<open>NotFound\<close> exactly on the strings that are not the name
  of an exported constant, and an entry it returns has exactly the name asked for. In
  particular both fail on 999 and on \<open>NOT_A_STATUS\<close>.
\<close>

theorem lookup_NotFound_iff:
  "(lookupByCode c = Inl NotFound \<longleftrightarrow> c \<notin> set (map snd exports)) \<and>
   (\<forall>e. lookupByCode c = Inr e \<longrightarrow> code e = c) \<and>
   (lookupByName s = Inl NotFound \<longleftrightarrow> s \<notin> set (map fst exports)) \<and>
   (\<forall>e. lookupByName s = Inr e \<longrightarrow> name e = s) \<and>
   lookupByCode 999 = Inl NotFound \<and>
   lookupByName ''NOT_A_STATUS'' = Inl NotFound"
proof -
  have "lookupByCode 999 = Inl NotFound"
    by (simp add: lookupByCode_def registry_eval)
  moreover have "lookupByName ''NOT_A_STATUS'' = Inl NotFound"
    by (simp add: lookupByName_def registry_eval)
  ultimately show ?thesis
    using lookupByCode_NotFound_iff [of c] lookupByName_NotFound_iff [of s]
      lookupByCode_exact [of c] lookupByName_exact [of s]
      registry_codes registry_names
    by simp
qed

theorem lookup_NotFound_iff_witness:
  "(lookupByCode 420 = Inl NotFound \<and> 420 \<notin> set (map snd exports)) \<and>
   (lookupByName ''not_found'' = Inl NotFound \<and> ''not_found'' \<notin> set (map fst exports)) \<and>
   (lookupByCode 404 \<noteq> Inl NotFound \<and> 404 \<in> set (map snd exports)) \<and>
   (lookupByName ''NOT_FOUND'' \<noteq> Inl NotFound \<and> ''NOT_FOUND'' \<in> set (map fst exports)) \<and>
   (lookupByCode 404 = Inr \<lparr>code = 404, name = ''NOT_FOUND'', category = CatClientError\<rparr> \<and>
    code \<lparr>code = 404, name = ''NOT_FOUND'', category = CatClientError\<rparr> = 404) \<and>
   (lookupByName ''NOT_FOUND'' =
      Inr \<lparr>code = 404, name = ''NOT_FOUND'', category = CatClientError\<rparr> \<and>
    name \<lparr>code = 404, name = ''NOT_FOUND'', category = CatClientError\<rparr> = ''NOT_FOUND'')"
proof -
  have a: "420 \<notin> set (map snd exports)" "''not_found'' \<notin> set (map fst exports)"
    "404 \<in> set (map snd exports)" "''NOT_FOUND'' \<in> set (map fst exports)"
    by (simp_all add: exports_eval)
  have b: "lookupByCode 404 = Inr \<lparr>code = 404, name = ''NOT_FOUND'', category = CatClientError\<rparr>"
    "lookupByName ''NOT_FOUND'' =
      Inr \<lparr>code = 404, name = ''NOT_FOUND'', category = CatClientError\<rparr>"
    by (simp_all add: lookupByCode_def lookupByName_def registry_eval)
  show ?thesis
    using a b lookup_NotFound_iff [of 420 "''not_found''"]
      lookup_NotFound_iff [of 404 "''NOT_FOUND''"]
    by simp
qed

text \<open>
  C9. Every exported constant has an exported literal type of the same name whose sole
  inhabitant is the value of the constant, so the value-level and the type-level
  declarations give one mapping from names to codes.
\<close>

theorem literal_types_are_constants:
  "map (\<lambda>(n, c). (n, {c})) exports = type_exports \<and>
   CONTINUE_ty = {CONTINUE} \<and> NOT_FOUND_ty = {NOT_FOUND} \<and> NOT_FOUND = 404 \<and>
   NETWORK_AUTHENTICATION_REQUIRED_ty = {NETWORK_AUTHENTICATION_REQUIRED}"
  by (simp add: exports_def type_exports_def const_defs type_defs)

text \<open>
  C10. The members of \<^verbatim>\<open>HTTPStatus\<close> are exactly the values of the exported constants,
  and the members of each category are exactly those of them with its class tag, not
  the whole range of the hundred: 419, 420, 427, 430 and 509 inhabit neither
  \<^verbatim>\<open>HTTPStatus\<close> nor any category.
\<close>

theorem HTTPStatus_enumerated:
  "HTTPStatus = set (map snd exports) \<and>
   (\<forall>k. members k = {c \<in> set (map snd exports). spec_category c = Some k}) \<and>
   419 \<notin> HTTPStatus \<and> 420 \<notin> HTTPStatus \<and> 427 \<notin> HTTPStatus \<and>
   430 \<notin> HTTPStatus \<and> 509 \<notin> HTTPStatus \<and>
   (\<forall>k. 419 \<notin> members k) \<and> (\<forall>k. 420 \<notin> members k) \<and> (\<forall>k. 427 \<notin> members k) \<and>
   (\<forall>k. 430 \<notin> members k) \<and> (\<forall>k. 509 \<notin> members k)"
proof -
  have in_some: "c \<in> HTTPStatus" if "c \<in> members k" for c k
    using that HTTPStatus_members by blast
  have eq: "members k = {c \<in> set (map snd exports). spec_category c = Some k}" for k
  proof
    show "members k \<subseteq> {c \<in> set (map snd exports). spec_category c = Some k}"
      using in_some members_spec_category HTTPStatus_eval by blast
  next
    show "{c \<in> set (map snd exports). spec_category c = Some k} \<subseteq> members k"
    proof
      fix c assume "c \<in> {c \<in> set (map snd exports). spec_category c = Some k}"
      then have c: "c \<in> HTTPStatus" and t: "spec_category c = Some k"
        using HTTPStatus_eval by simp_all
      from c obtain k' where k': "c \<in> members k'"
        using HTTPStatus_members by blast
      then have "spec_category c = Some k'" by (rule members_spec_category)
      with t have "k' = k" by simp
      with k' show "c \<in> members k" by simp
    qed
  qed
  have out: "419 \<notin> HTTPStatus" "420 \<notin> HTTPStatus" "427 \<notin> HTTPStatus"
    "430 \<notin> HTTPStatus" "509 \<notin> HTTPStatus"
    by (simp_all add: HTTPStatus_eval exports_eval)
  from out in_some have "\<forall>k. 419 \<notin> members k" "\<forall>k. 420 \<notin> members k"
    "\<forall>k. 427 \<notin> members k" "\<forall>k. 430 \<notin> members k" "\<forall>k. 509 \<notin> members k"
    by blast+
  with out eq HTTPStatus_eval show ?thesis by simp
qed

end
